theory Spec2Isabelle
  imports Main "HOL-Library.Sublist" "HOL-Library.Word"
begin

section \<open>Data model\<close>

text \<open>
  A Python \<open>str\<close> is a sequence of Unicode code points, \<open>bytes\<close> a sequence of octets.
  \<open>lit\<close> turns an ASCII literal of the source into its code points.
\<close>

type_synonym str = "nat list"

type_synonym bytes = "8 word list"

definition lit :: "string \<Rightarrow> str" where
  "lit s = map of_char s"

text \<open>
  The exceptions that the source catches with \<open>except Exception as e\<close>. Failures of the
  embedding service, of the vector store, of the retriever and of the language model carry
  their message.
\<close>

datatype exn = UnicodeDecodeError | OSError | IndexError | AttributeError | ServiceError str

text \<open>The Streamlit calls that show a message: \<open>st.warning\<close>, \<open>st.info\<close>, \<open>st.error\<close>.\<close>

datatype st_call = St_warning string | St_info string | St_error string exn

text \<open>\<open>langchain_core.documents.Document\<close>: the text and its metadata dictionary.\<close>

record document =
  page_content :: str
  metadata :: "(string \<times> string) list"

text \<open>One entry of \<open>st.session_state.messages\<close>: the dict with keys role and content.\<close>

record message =
  role :: string
  content :: str

text \<open>A chat prompt as the language model receives it: (message type, text) pairs.\<close>

type_synonym prompt = "(string \<times> str) list"

text \<open>
  The widgets and the working directory, as one run of the script reads them:
  the sidebar text input, the file uploader (the bytes of the upload), the file
  \<open>biography.txt\<close> (absent, unreadable, or its bytes), the button and the chat input.
\<close>

datatype local_file = Unreadable | File bytes

record inputs =
  api_key :: str
  uploaded_file :: "bytes option"
  biography_txt :: "local_file option"
  clear_chat_history :: bool
  chat_input :: "str option"

text \<open>
  The external services. They are parameters of the model:
  \<^item> \<open>from_documents key splits\<close> is \<open>FAISS.from_documents\<close> with a
    \<open>GoogleGenerativeAIEmbeddings\<close> made from the key: it embeds the chunks and returns
    the index, or raises;
  \<^item> \<open>chat_model key\<close> is the construction of \<open>ChatGoogleGenerativeAI\<close>, which may raise;
  \<^item> \<open>get_relevant_documents vs q\<close> is the retriever of the vector store;
  \<^item> \<open>generate key p\<close> is the call of the language model on a prompt, its output parsed
    to a string.
\<close>

record 'vs services =
  from_documents :: "str \<Rightarrow> document list \<Rightarrow> exn + 'vs"
  chat_model :: "str \<Rightarrow> exn option"
  get_relevant_documents :: "'vs \<Rightarrow> str \<Rightarrow> exn + document list"
  generate :: "str \<Rightarrow> prompt \<Rightarrow> exn + str"

text \<open>
  The state that outlives one run of the script:
  \<^item> \<open>messages\<close> is \<open>st.session_state.messages\<close>, \<open>None\<close> while the key is absent;
  \<^item> \<open>cache\<close> is the store of \<open>st.cache_resource\<close> for \<open>build_vector_store\<close>. Streamlit
    leaves a parameter whose name starts with an underscore out of the key, so the key is
    \<open>text_content\<close> alone; an entry holds the returned value and the messages the call
    showed, which a hit shows again;
  \<^item> \<open>embed_calls\<close> lists the chunk lists passed to the embedding service so far,
    \<open>generator_calls\<close> the prompts passed to the language model, \<open>ui\<close> the messages shown.
\<close>

record 'vs app =
  messages :: "message list option"
  cache :: "str \<rightharpoonup> ('vs option \<times> st_call list)"
  embed_calls :: "document list list"
  generator_calls :: "prompt list"
  ui :: "st_call list"

definition getHistory :: "'vs app \<Rightarrow> message list" where
  "getHistory st = (case messages st of None \<Rightarrow> [] | Some ms \<Rightarrow> ms)"

section \<open>Reading the document: \<open>get_text_content\<close>\<close>

text \<open>
  \<open>bytes.decode("utf-8")\<close>: strict UTF-8. A lead byte fixes the number of continuation
  bytes; overlong forms, surrogates and code points above U+10FFFF are refused
  (\<open>None\<close> is \<open>UnicodeDecodeError\<close>).
\<close>

definition cont :: "8 word \<Rightarrow> bool" where
  "cont b = (0x80 \<le> b \<and> b \<le> 0xBF)"

fun decode :: "bytes \<Rightarrow> str option" where
  "decode [] = Some []"
| "decode (b0 # bs) =
     (if b0 < 0x80 then map_option ((#) (unat b0)) (decode bs)
      else if 0xC2 \<le> b0 \<and> b0 \<le> 0xDF then
        (case bs of
           b1 # r \<Rightarrow>
             if cont b1
             then map_option ((#) ((unat b0 - 0xC0) * 64 + (unat b1 - 0x80))) (decode r)
             else None
         | _ \<Rightarrow> None)
      else if 0xE0 \<le> b0 \<and> b0 \<le> 0xEF then
        (case bs of
           b1 # b2 # r \<Rightarrow>
             if cont b1 \<and> cont b2 \<and> (if b0 = 0xE0 then 0xA0 \<le> b1 else True)
                \<and> (if b0 = 0xED then b1 \<le> 0x9F else True)
             then map_option
                    ((#) ((unat b0 - 0xE0) * 4096 + (unat b1 - 0x80) * 64 + (unat b2 - 0x80)))
                    (decode r)
             else None
         | _ \<Rightarrow> None)
      else if 0xF0 \<le> b0 \<and> b0 \<le> 0xF4 then
        (case bs of
           b1 # b2 # b3 # r \<Rightarrow>
             if cont b1 \<and> cont b2 \<and> cont b3 \<and> (if b0 = 0xF0 then 0x90 \<le> b1 else True)
                \<and> (if b0 = 0xF4 then b1 \<le> 0x8F else True)
             then map_option
                    ((#) ((unat b0 - 0xF0) * 262144 + (unat b1 - 0x80) * 4096
                          + (unat b2 - 0x80) * 64 + (unat b3 - 0x80)))
                    (decode r)
             else None
         | _ \<Rightarrow> None)
      else None)"

text \<open>
  \<open>open("biography.txt", "r", encoding="utf-8")\<close> reads in text mode: after decoding,
  every \<open>\r\n\<close> and every lone \<open>\r\<close> becomes \<open>\n\<close>.
\<close>

fun universal_newlines :: "str \<Rightarrow> str" where
  "universal_newlines [] = []"
| "universal_newlines [c] = [if c = 13 then 10 else c]"
| "universal_newlines (c # d # cs) =
     (if c = 13 \<and> d = 10 then 10 # universal_newlines cs
      else (if c = 13 then 10 else c) # universal_newlines (d # cs))"

text \<open>
  Lines 35 to 51. An uploaded file object is truthy whatever its size, so an upload
  always takes the first branch. The result is the returned value (\<open>None\<close> for Python's
  \<open>None\<close>) and the messages shown.
\<close>

definition get_text_content :: "inputs \<Rightarrow> str option \<times> st_call list" where
  "get_text_content inp =
     (case uploaded_file inp of
        Some b \<Rightarrow>
          (case decode b of
             Some text \<Rightarrow> (Some text, [])
           | None \<Rightarrow> (None, [St_error ''Error reading file: '' UnicodeDecodeError]))
      | None \<Rightarrow>
          (case biography_txt inp of
             Some f \<Rightarrow>
               (case f of
                  Unreadable \<Rightarrow> (None, [St_error ''Error reading file: '' OSError])
                | File b \<Rightarrow>
                    (case decode b of
                       Some text \<Rightarrow> (Some (universal_newlines text), [])
                     | None \<Rightarrow> (None, [St_error ''Error reading file: '' UnicodeDecodeError])))
           | None \<Rightarrow> (None, [])))"

text \<open>
  A read failure: the upload is not valid UTF-8, or, without an upload, \<open>biography.txt\<close>
  exists and cannot be opened or is not valid UTF-8.
\<close>

definition read_fails :: "inputs \<Rightarrow> bool" where
  "read_fails inp =
     (case uploaded_file inp of
        Some b \<Rightarrow> decode b = None
      | None \<Rightarrow>
          (case biography_txt inp of
             None \<Rightarrow> False
           | Some Unreadable \<Rightarrow> True
           | Some (File b) \<Rightarrow> decode b = None))"

section \<open>The text splitter\<close>

text \<open>
  Line 66 makes a \<open>RecursiveCharacterTextSplitter(chunk_size=1000, chunk_overlap=200)\<close> of
  \<open>langchain_text_splitters\<close>; everything else keeps its default: the separators
  \<open>["\n\n", "\n", " ", ""]\<close>, \<open>keep_separator=True\<close>, \<open>strip_whitespace=True\<close>,
  \<open>length_function=len\<close>. The functions below follow the methods of that class.
\<close>

definition chunk_size :: int where
  "chunk_size = 1000"

definition chunk_overlap :: int where
  "chunk_overlap = 200"

definition separators :: "str list" where
  "separators = [[10, 10], [10], [32], []]"

text \<open>\<open>str.isspace\<close> of one code point, which is what \<open>str.strip()\<close> removes.\<close>

definition isspace :: "nat \<Rightarrow> bool" where
  "isspace c = ((9 \<le> c \<and> c \<le> 13) \<or> (28 \<le> c \<and> c \<le> 32) \<or> c = 133 \<or> c = 160 \<or> c = 5760
     \<or> (8192 \<le> c \<and> c \<le> 8202) \<or> c = 8232 \<or> c = 8233 \<or> c = 8239 \<or> c = 8287 \<or> c = 12288)"

definition strip :: "str \<Rightarrow> str" where
  "strip s = rev (dropWhile isspace (rev (dropWhile isspace s)))"

text \<open>\<open>sep.join(docs)\<close>.\<close>

fun join :: "str \<Rightarrow> str list \<Rightarrow> str" where
  "join sep [] = []"
| "join sep [d] = d"
| "join sep (d # ds) = d @ sep @ join sep ds"

text \<open>\<open>re.search(re.escape(sep), text)\<close>: does the literal \<open>sep\<close> occur in \<open>text\<close>.\<close>

fun re_search :: "str \<Rightarrow> str \<Rightarrow> bool" where
  "re_search sep [] = (sep = [])"
| "re_search sep (c # cs) = (prefix sep (c # cs) \<or> re_search sep cs)"

text \<open>
  \<open>re.split\<close> on a literal, non-empty separator: the pieces between the occurrences
  of \<open>sep\<close>, found from the left without overlap.
\<close>

fun re_split :: "str \<Rightarrow> str \<Rightarrow> str list" where
  "re_split sep [] = [[]]"
| "re_split sep (c # cs) =
     (if prefix sep (c # cs) then [] # re_split sep (drop (length sep - 1) cs)
      else (case re_split sep cs of p # ps \<Rightarrow> (c # p) # ps | [] \<Rightarrow> []))"

text \<open>
  \<open>_split_text_with_regex(text, separator, keep_separator=True)\<close>: each separator stays
  at the start of the piece that follows it, the empty separator cuts between all
  characters, and empty pieces are dropped.
\<close>

definition split_text_with_regex :: "str \<Rightarrow> str \<Rightarrow> str list" where
  "split_text_with_regex text sep =
     filter (\<lambda>s. s \<noteq> [])
       (if sep \<noteq> [] then (case re_split sep text of p # ps \<Rightarrow> p # map ((@) sep) ps | [] \<Rightarrow> [])
        else map (\<lambda>c. [c]) text)"

text \<open>\<open>_join_docs\<close>: join, strip, and \<open>None\<close> for an empty result.\<close>

definition join_docs :: "str list \<Rightarrow> str \<Rightarrow> str option" where
  "join_docs docs sep = (let text = strip (join sep docs) in if text = [] then None else Some text)"

text \<open>
  The inner \<open>while\<close> loop of \<open>_merge_splits\<close>, which drops pieces from the front of
  \<open>current_doc\<close>. \<open>current_doc[0]\<close> on an empty list raises IndexError (\<open>None\<close>).
\<close>

fun shrink :: "int \<Rightarrow> int \<Rightarrow> int \<Rightarrow> int \<Rightarrow> int \<Rightarrow> str list \<Rightarrow> (int \<times> str list) option" where
  "shrink cs co sl dl tot cur =
     (if tot > co \<or> (tot + dl + (if length cur > 0 then sl else 0) > cs \<and> tot > 0) then
        (case cur of
           [] \<Rightarrow> None
         | x # xs \<Rightarrow> shrink cs co sl dl (tot - (int (length x) + (if length cur > 1 then sl else 0))) xs)
      else Some (tot, cur))"

text \<open>
  The \<open>for\<close> loop of \<open>_merge_splits\<close> over the remaining splits, with \<open>current_doc\<close> and
  \<open>total\<close> as loop state; the result is the list of documents appended to \<open>docs\<close>.
\<close>

primrec merge_loop :: "int \<Rightarrow> int \<Rightarrow> str \<Rightarrow> str list \<Rightarrow> int \<Rightarrow> str list \<Rightarrow> str list option" where
  "merge_loop cs co sep cur tot [] =
     Some (case join_docs cur sep of None \<Rightarrow> [] | Some doc \<Rightarrow> [doc])"
| "merge_loop cs co sep cur tot (d # ds) =
     (if tot + int (length d) + (if length cur > 0 then int (length sep) else 0) > cs
         \<and> length cur > 0 then
        (case shrink cs co (int (length sep)) (int (length d)) tot cur of
           None \<Rightarrow> None
         | Some (tot', cur') \<Rightarrow>
             map_option ((@) (case join_docs cur sep of None \<Rightarrow> [] | Some doc \<Rightarrow> [doc]))
               (merge_loop cs co sep (cur' @ [d])
                  (tot' + int (length d) + (if length cur' > 0 then int (length sep) else 0)) ds))
      else merge_loop cs co sep (cur @ [d])
             (tot + int (length d) + (if length cur > 0 then int (length sep) else 0)) ds)"

definition merge_splits :: "int \<Rightarrow> int \<Rightarrow> str list \<Rightarrow> str \<Rightarrow> str list option" where
  "merge_splits cs co splits sep = merge_loop cs co sep [] 0 splits"

text \<open>
  The \<open>for s in splits\<close> loop of \<open>_split_text\<close>, with \<open>_good_splits\<close> as loop state.
  \<open>rec\<close> is the recursive call on the remaining separators, \<open>None\<close> when
  \<open>new_separators\<close> is empty. With \<open>keep_separator=True\<close> the pieces are merged with the
  empty separator.
\<close>

primrec split_loop ::
  "int \<Rightarrow> int \<Rightarrow> (str \<Rightarrow> str list option) option \<Rightarrow> str list \<Rightarrow> str list \<Rightarrow> str list option"
where
  "split_loop cs co rec good [] = (if good \<noteq> [] then merge_splits cs co good [] else Some [])"
| "split_loop cs co rec good (s # splits) =
     (if int (length s) < cs then split_loop cs co rec (good @ [s]) splits
      else
        Option.bind (if good \<noteq> [] then merge_splits cs co good [] else Some []) (\<lambda>merged.
        Option.bind (case rec of None \<Rightarrow> Some [s] | Some r \<Rightarrow> r s) (\<lambda>other.
        map_option (\<lambda>rest. merged @ other @ rest) (split_loop cs co rec [] splits))))"

text \<open>
  \<open>_split_text(text, separators)\<close>. The first separator that is empty or occurs in the
  text is used, and the separators after it are the ones for the recursive calls; when
  none qualifies the last one is used. \<open>separators[-1]\<close> of an empty list raises
  IndexError (\<open>None\<close>).
\<close>

primrec split_text :: "str list \<Rightarrow> int \<Rightarrow> int \<Rightarrow> str \<Rightarrow> str list option" where
  "split_text [] cs co text = None"
| "split_text (s # ss) cs co text =
     (if s \<noteq> [] \<and> \<not> re_search s text \<and> ss \<noteq> [] then split_text ss cs co text
      else
        (let new_separators = (if s \<noteq> [] \<and> re_search s text then ss else [])
         in split_loop cs co (if new_separators = [] then None else Some (split_text ss cs co)) []
              (split_text_with_regex text s)))"

text \<open>
  \<open>split_documents\<close>: every chunk of a document becomes a document with a copy of its
  metadata.
\<close>

fun split_documents :: "document list \<Rightarrow> document list option" where
  "split_documents [] = Some []"
| "split_documents (doc # docs) =
     (case split_text separators chunk_size chunk_overlap (page_content doc) of
        None \<Rightarrow> None
      | Some chunks \<Rightarrow>
          map_option
            ((@) (map (\<lambda>c. \<lparr>page_content = c, metadata = metadata doc\<rparr>) chunks))
            (split_documents docs))"

text \<open>The chunk texts of a raw text, as line 63 and line 67 produce them.\<close>

definition chunks :: "str \<Rightarrow> str list option" where
  "chunks text_content =
     map_option (map page_content)
       (split_documents [\<lparr>page_content = text_content, metadata = [(''source'', ''biography'')]\<rparr>])"

section \<open>Building the vector store: \<open>build_vector_store\<close>\<close>

text \<open>
  Lines 54 to 81, the body under the decorator: the returned value, the messages shown
  and the calls made to the embedding service.
\<close>

definition build_vector_store_body ::
  "'vs services \<Rightarrow> str \<Rightarrow> str \<Rightarrow> 'vs option \<times> st_call list \<times> document list list"
where
  "build_vector_store_body sv text_content key =
     (if text_content = [] then (None, [], [])
      else
        (case split_documents
                [\<lparr>page_content = text_content, metadata = [(''source'', ''biography'')]\<rparr>] of
           None \<Rightarrow> (None, [St_error ''Error creating vector store: '' IndexError], [])
         | Some splits \<Rightarrow>
             (case from_documents sv key splits of
                Inl e \<Rightarrow> (None, [St_error ''Error creating vector store: '' e], [splits])
              | Inr vs \<Rightarrow> (Some vs, [], [splits]))))"

text \<open>
  Line 53, \<open>@st.cache_resource\<close>: a call whose \<open>text_content\<close> has an entry returns the
  stored value without running the body; otherwise the body runs and its result is
  stored. The second parameter is named \<open>_api_key\<close> and is not part of the key.
\<close>

definition build_vector_store :: "'vs services \<Rightarrow> str \<Rightarrow> str \<Rightarrow> 'vs app \<Rightarrow> 'vs option \<times> 'vs app" where
  "build_vector_store sv text_content key st =
     (case cache st text_content of
        Some (r, shown) \<Rightarrow> (r, st\<lparr>ui := ui st @ shown\<rparr>)
      | None \<Rightarrow>
          (case build_vector_store_body sv text_content key of
             (r, shown, calls) \<Rightarrow>
               (r, st\<lparr>cache := (cache st)(text_content \<mapsto> (r, shown)),
                      embed_calls := embed_calls st @ calls,
                      ui := ui st @ shown\<rparr>)))"

section \<open>The chain: \<open>get_rag_chain\<close>\<close>

text \<open>Lines 92 to 99: the four adjacent literals, a blank line and the placeholder.\<close>

definition persona :: str where
  "persona = lit ''You are an AI assistant representing the person described in the context. ''
     @ lit ''Answer questions as if you are that person. ''"

definition grounding_rule :: str where
  "grounding_rule = lit ''Use the following pieces of retrieved context to answer the question. ''
     @ lit ''If the answer is not in the context, say you don't know based on the biography. ''"

text \<open>
  The prompt of lines 101 to 106 filled in by the chain of line 109:
  \<open>create_stuff_documents_chain\<close> puts the page contents of the retrieved documents,
  joined by a blank line in the order the retriever returned them, in place of
  \<open>{context}\<close>, and the question in place of \<open>{input}\<close>.
\<close>

definition format_docs :: "document list \<Rightarrow> str" where
  "format_docs docs = join [10, 10] (map page_content docs)"

definition format_messages :: "document list \<Rightarrow> str \<Rightarrow> prompt" where
  "format_messages docs input =
     [(''system'', persona @ grounding_rule @ [10, 10] @ format_docs docs), (''human'', input)]"

text \<open>
  A chain is the vector store it retrieves from and the key of its language model.
  Lines 83 to 114: \<open>None\<close> and a message when the construction raises.
\<close>

record 'vs rag_chain =
  retriever :: 'vs
  llm :: str

definition get_rag_chain :: "'vs services \<Rightarrow> 'vs \<Rightarrow> str \<Rightarrow> 'vs rag_chain option \<times> st_call list" where
  "get_rag_chain sv vectorstore key =
     (case chat_model sv key of
        Some e \<Rightarrow> (None, [St_error ''Error creating chain: '' e])
      | None \<Rightarrow> (Some \<lparr>retriever = vectorstore, llm = key\<rparr>, []))"

text \<open>
  \<open>rag_chain.invoke({"input": prompt})['answer']\<close> of lines 153 and 154: retrieve, fill
  the prompt, call the language model. The result comes with the prompts passed to
  the language model. On \<open>None\<close> the attribute access raises AttributeError.
\<close>

definition invoke :: "'vs services \<Rightarrow> 'vs rag_chain option \<Rightarrow> str \<Rightarrow> (exn + str) \<times> prompt list" where
  "invoke sv chain input =
     (case chain of
        None \<Rightarrow> (Inl AttributeError, [])
      | Some c \<Rightarrow>
          (case get_relevant_documents sv (retriever c) input of
             Inl e \<Rightarrow> (Inl e, [])
           | Inr docs \<Rightarrow>
               (generate sv (llm c) (format_messages docs input), [format_messages docs input])))"

section \<open>The script: sidebar and \<open>main\<close>\<close>

text \<open>Lines 135 to 158, the chat interface for a built vector store.\<close>

definition chat_interface :: "'vs services \<Rightarrow> 'vs \<Rightarrow> inputs \<Rightarrow> 'vs app \<Rightarrow> 'vs app" where
  "chat_interface sv vectorstore inp st =
     (case get_rag_chain sv vectorstore (api_key inp) of
        (chain, shown) \<Rightarrow>
          (let st1 = st\<lparr>ui := ui st @ shown\<rparr>;
               st2 = (case messages st1 of None \<Rightarrow> st1\<lparr>messages := Some []\<rparr> | Some ms \<Rightarrow> st1)
           in case chat_input inp of
                None \<Rightarrow> st2
              | Some prompt \<Rightarrow>
                  if prompt = [] then st2
                  else
                    (let st3 = st2\<lparr>messages :=
                                 Some (getHistory st2 @ [\<lparr>role = ''user'', content = prompt\<rparr>])\<rparr>
                     in case invoke sv chain prompt of
                          (Inr answer, sent) \<Rightarrow>
                            st3\<lparr>messages :=
                                  Some (getHistory st3 @ [\<lparr>role = ''assistant'', content = answer\<rparr>]),
                                generator_calls := generator_calls st3 @ sent\<rparr>
                        | (Inl e, sent) \<Rightarrow>
                            st3\<lparr>generator_calls := generator_calls st3 @ sent,
                                ui := ui st3 @ [St_error ''An error occurred during generation: '' e]\<rparr>)))"

text \<open>Lines 118 to 158. The message of line 127 is shown when there is no text to index.\<close>

definition no_document_message :: string where
  "no_document_message =
     ''Please upload a .txt file or create a 'biography.txt' file in the app directory.''"

definition main :: "'vs services \<Rightarrow> inputs \<Rightarrow> 'vs app \<Rightarrow> 'vs app" where
  "main sv inp st =
     (if api_key inp = [] then
        st\<lparr>ui := ui st @ [St_warning ''Please enter your Google API Key in the sidebar to start.'']\<rparr>
      else
        (case get_text_content inp of
           (text_content, shown) \<Rightarrow>
             (let st1 = st\<lparr>ui := ui st @ shown\<rparr>
              in case text_content of
                   None \<Rightarrow> st1\<lparr>ui := ui st1 @ [St_info no_document_message]\<rparr>
                 | Some text \<Rightarrow>
                     if text = [] then
                       st1\<lparr>ui := ui st1 @ [St_info no_document_message]\<rparr>
                     else
                       (case build_vector_store sv text (api_key inp) st1 of
                          (None, st2) \<Rightarrow> st2
                        | (Some vectorstore, st2) \<Rightarrow> chat_interface sv vectorstore inp st2))))"

text \<open>
  One run of the whole script. Lines 29 to 31: a click on the button empties the history
  and \<open>st.rerun()\<close> starts the script again, where the button reads False and no chat
  input is pending.
\<close>

definition clear_chat :: "'vs app \<Rightarrow> 'vs app" where
  "clear_chat st = st\<lparr>messages := Some []\<rparr>"

definition script :: "'vs services \<Rightarrow> inputs \<Rightarrow> 'vs app \<Rightarrow> 'vs app" where
  "script sv inp st =
     (if clear_chat_history inp
      then main sv (inp\<lparr>clear_chat_history := False, chat_input := None\<rparr>) (clear_chat st)
      else main sv inp st)"

section \<open>Concrete services and inputs\<close>

text \<open>
  A small instance to run the model on: the vector store is the list of chunks, the
  retriever returns its first four, and the language model answers \<open>ok\<close> under
  the key \<open>k\<close> and fails under every other key. The upload is the one byte \<open>A\<close>.
\<close>

definition fresh_app :: "document list app" where
  "fresh_app =
     \<lparr>messages = None, cache = Map.empty, embed_calls = [], generator_calls = [], ui = []\<rparr>"

definition stub_services :: "document list services" where
  "stub_services =
     \<lparr>from_documents = (\<lambda>key splits. Inr splits),
      chat_model = (\<lambda>key. None),
      get_relevant_documents = (\<lambda>vs q. Inr (take 4 vs)),
      generate = (\<lambda>key p. if key = [107] then Inr [111, 107] else Inl (ServiceError [52, 48, 49]))\<rparr>"

definition ask :: "str \<Rightarrow> str option \<Rightarrow> inputs" where
  "ask key q =
     \<lparr>api_key = key, uploaded_file = Some [0x41], biography_txt = None,
      clear_chat_history = False, chat_input = q\<rparr>"

definition doc_A :: document where
  "doc_A = \<lparr>page_content = [65], metadata = [(''source'', ''biography'')]\<rparr>"

definition doc_B :: document where
  "doc_B = \<lparr>page_content = [66], metadata = [(''source'', ''biography'')]\<rparr>"

definition ready_app :: "document list app" where
  "ready_app =
     \<lparr>messages = Some [], cache = [[65] \<mapsto> (Some [doc_A], [])], embed_calls = [[doc_A]],
      generator_calls = [], ui = []\<rparr>"

section \<open>Facts about the script\<close>

lemma build_vector_store_messages:
  "build_vector_store sv t key st = (r, st') \<Longrightarrow> messages st' = messages st"
  by (auto simp: build_vector_store_def split: option.splits prod.splits)

lemma build_vector_store_generator_calls:
  "build_vector_store sv t key st = (r, st') \<Longrightarrow> generator_calls st' = generator_calls st"
  by (auto simp: build_vector_store_def split: option.splits prod.splits)

lemma main_ready:
  assumes "api_key inp \<noteq> []" "get_text_content inp = (Some t, shown)" "t \<noteq> []"
    and "build_vector_store sv t (api_key inp) (st\<lparr>ui := ui st @ shown\<rparr>) = (Some vs, st')"
  shows "main sv inp st = chat_interface sv vs inp st'"
  using assms by (simp add: main_def)

lemma invoke_generate:
  assumes "chat_model sv key = None" "get_relevant_documents sv vs q = Inr docs"
  shows "invoke sv (fst (get_rag_chain sv vs key)) q
           = (generate sv key (format_messages docs q), [format_messages docs q])"
  using assms by (simp add: invoke_def get_rag_chain_def)

lemma chat_interface_failure:
  assumes "chat_input inp = Some q" "q \<noteq> []"
    and "invoke sv (fst (get_rag_chain sv vs (api_key inp))) q = (Inl e, sent)"
  shows "getHistory (chat_interface sv vs inp st) = getHistory st @ [\<lparr>role = ''user'', content = q\<rparr>]"
    and "ui (chat_interface sv vs inp st)
           = ui st @ snd (get_rag_chain sv vs (api_key inp))
               @ [St_error ''An error occurred during generation: '' e]"
  using assms
  by (auto simp: chat_interface_def getHistory_def Let_def split: prod.splits option.splits sum.splits)

lemma chat_interface_success:
  assumes "chat_input inp = Some q" "q \<noteq> []"
    and "invoke sv (fst (get_rag_chain sv vs (api_key inp))) q = (Inr answer, sent)"
  shows "getHistory (chat_interface sv vs inp st)
           = getHistory st @ [\<lparr>role = ''user'', content = q\<rparr>, \<lparr>role = ''assistant'', content = answer\<rparr>]"
  using assms
  by (auto simp: chat_interface_def getHistory_def Let_def split: prod.splits option.splits sum.splits)

lemma isspace_65: "\<not> isspace 65"
  by (simp add: isspace_def)

lemma split_documents_A:
  "split_documents [\<lparr>page_content = [65], metadata = md\<rparr>] = Some [\<lparr>page_content = [65], metadata = md\<rparr>]"
  by (simp add: separators_def chunk_size_def chunk_overlap_def split_text_with_regex_def
      merge_splits_def join_docs_def strip_def isspace_65)

lemma split_documents_B:
  "split_documents [\<lparr>page_content = [66], metadata = md\<rparr>] = Some [\<lparr>page_content = [66], metadata = md\<rparr>]"
  by (simp add: separators_def chunk_size_def chunk_overlap_def split_text_with_regex_def
      merge_splits_def join_docs_def strip_def isspace_def)

lemma get_text_content_ask: "get_text_content (ask key q) = (Some [65], [])"
  by (simp add: get_text_content_def ask_def)

lemma build_fresh:
  "build_vector_store stub_services [65] key fresh_app = (Some [doc_A], ready_app\<lparr>messages := None\<rparr>)"
  by (simp add: build_vector_store_def build_vector_store_body_def split_documents_A fresh_app_def
      stub_services_def doc_A_def ready_app_def del: split_documents.simps)

lemma build_ready: "build_vector_store sv [65] key ready_app = (Some [doc_A], ready_app)"
  by (simp add: build_vector_store_def ready_app_def)

lemma main_fresh_ask:
  assumes "key \<noteq> []"
  shows "main stub_services (ask key q) fresh_app
           = chat_interface stub_services [doc_A] (ask key q) (ready_app\<lparr>messages := None\<rparr>)"
proof -
  have a: "api_key (ask key q) \<noteq> []"
    using assms by (simp add: ask_def)
  have b: "build_vector_store stub_services [65] (api_key (ask key q))
             (fresh_app\<lparr>ui := ui fresh_app @ []\<rparr>) = (Some [doc_A], ready_app\<lparr>messages := None\<rparr>)"
    using build_fresh [of "api_key (ask key q)"] by (simp add: fresh_app_def)
  show ?thesis
    by (rule main_ready [OF a get_text_content_ask _ b]) simp
qed

lemma build_ready_ask:
  "build_vector_store sv [65] (api_key (ask key q)) (ready_app\<lparr>ui := ui ready_app @ []\<rparr>)
     = (Some [doc_A], ready_app)"
  using build_ready [of sv "api_key (ask key q)"] by (simp add: ready_app_def)

lemma main_ready_ask:
  assumes "key \<noteq> []"
  shows "main sv (ask key q) ready_app = chat_interface sv [doc_A] (ask key q) ready_app"
proof -
  have a: "api_key (ask key q) \<noteq> []"
    using assms by (simp add: ask_def)
  show ?thesis
    by (rule main_ready [OF a get_text_content_ask _ build_ready_ask]) simp
qed

lemma chat_interface_generator_calls:
  "generator_calls (chat_interface sv vs inp st)
     = generator_calls st
       @ (case chat_input inp of
            None \<Rightarrow> []
          | Some q \<Rightarrow> if q = [] then [] else snd (invoke sv (fst (get_rag_chain sv vs (api_key inp))) q))"
  by (auto simp: chat_interface_def Let_def split: prod.splits option.splits sum.splits)

lemma chat_interface_cache: "cache (chat_interface sv vs inp st) = cache st"
  by (auto simp: chat_interface_def Let_def split: prod.splits option.splits sum.splits)

lemma chat_interface_embed_calls: "embed_calls (chat_interface sv vs inp st) = embed_calls st"
  by (auto simp: chat_interface_def Let_def split: prod.splits option.splits sum.splits)

lemma chat_interface_no_query:
  "chat_input inp = None \<Longrightarrow> messages st = Some ms \<Longrightarrow> messages (chat_interface sv vs inp st) = Some ms"
  by (auto simp: chat_interface_def Let_def split: prod.splits option.splits sum.splits)

lemma build_vector_store_hit:
  "cache st t = Some (r, shown) \<Longrightarrow> build_vector_store sv t key st = (r, st\<lparr>ui := ui st @ shown\<rparr>)"
  by (simp add: build_vector_store_def)

lemma main_generator_calls:
  "generator_calls (main sv inp st)
     = generator_calls st
       @ (if api_key inp = [] then []
          else case fst (get_text_content inp) of
                 None \<Rightarrow> []
               | Some t \<Rightarrow>
                   if t = [] then []
                   else (case (case cache st t of
                                 Some (r, shown) \<Rightarrow> r
                               | None \<Rightarrow> fst (build_vector_store_body sv t (api_key inp))) of
                           None \<Rightarrow> []
                         | Some vs \<Rightarrow>
                             (case chat_input inp of
                                None \<Rightarrow> []
                              | Some q \<Rightarrow>
                                  if q = [] then []
                                  else snd (invoke sv (fst (get_rag_chain sv vs (api_key inp))) q))))"
  by (auto simp: main_def build_vector_store_def chat_interface_generator_calls Let_def
      split: prod.splits option.splits)

lemma main_keeps_index:
  assumes "get_text_content inp = (Some t, shown)" "cache st t = Some entry"
  shows "cache (main sv inp st) = cache st" and "embed_calls (main sv inp st) = embed_calls st"
  using assms
  by (auto simp: main_def build_vector_store_def chat_interface_cache chat_interface_embed_calls Let_def
      split: prod.splits option.splits)

lemma main_no_query_history:
  assumes "chat_input inp = None" "messages st = Some ms"
  shows "messages (main sv inp st) = Some ms"
proof -
  have b: "\<And>t key s r s'. build_vector_store sv t key s = (r, s') \<Longrightarrow> messages s' = messages s"
    by (rule build_vector_store_messages)
  show ?thesis
    using assms
    by (auto simp: main_def Let_def chat_interface_no_query split: prod.splits option.splits dest!: b)
qed

lemma join_Cons: "join sep (x # xs) = x @ (if xs = [] then [] else sep @ join sep xs)"
  by (cases xs) simp_all

lemma join_append:
  "join sep (xs @ ys)
     = (if xs = [] then join sep ys
        else if ys = [] then join sep xs
        else join sep xs @ sep @ join sep ys)"
  by (induction xs) (auto simp: join_Cons)

lemma join_nth:
  assumes "i < length xs"
  shows "\<exists>a c. join sep xs = a @ xs ! i @ c"
proof -
  have "xs = take i xs @ (xs ! i # drop (Suc i) xs)"
    using assms by (simp add: id_take_nth_drop [symmetric])
  then have "join sep xs = join sep (take i xs @ (xs ! i # drop (Suc i) xs))"
    by simp
  also have "\<dots> = (if take i xs = [] then [] else join sep (take i xs) @ sep)
                   @ xs ! i @ (if drop (Suc i) xs = [] then [] else sep @ join sep (drop (Suc i) xs))"
    by (simp add: join_append join_Cons)
  finally show ?thesis by blast
qed

lemma join_nth_nth:
  assumes "i < j" "j < length xs"
  shows "\<exists>a b c. join sep xs = a @ xs ! i @ b @ xs ! j @ c"
proof -
  have t: "take j xs \<noteq> []" "i < length (take j xs)" "take j xs ! i = xs ! i"
    using assms by auto
  have "xs = take j xs @ (xs ! j # drop (Suc j) xs)"
    using assms by (simp add: id_take_nth_drop [symmetric])
  then have "join sep xs = join sep (take j xs @ (xs ! j # drop (Suc j) xs))"
    by simp
  also have "\<dots> = join sep (take j xs) @ sep
                   @ xs ! j @ (if drop (Suc j) xs = [] then [] else sep @ join sep (drop (Suc j) xs))"
    using t(1) by (simp add: join_append join_Cons)
  finally have e: "join sep xs = join sep (take j xs) @ sep
                   @ xs ! j @ (if drop (Suc j) xs = [] then [] else sep @ join sep (drop (Suc j) xs))" .
  from join_nth [OF t(2), of sep] t(3) obtain a c where "join sep (take j xs) = a @ xs ! i @ c"
    by auto
  with e have "join sep xs = a @ xs ! i @ (c @ sep) @ xs ! j
                 @ (if drop (Suc j) xs = [] then [] else sep @ join sep (drop (Suc j) xs))"
    by simp
  then show ?thesis by blast
qed

section \<open>Queries in the ready state\<close>

text \<open>
  C8. A query whose language model call succeeds appends exactly two turns to
  \<open>st.session_state.messages\<close>, in this order: the user turn with the query text, then the
  assistant turn with the returned answer; the earlier entries stay as they were.
  The ready state is the one where the document was read and \<open>build_vector_store\<close>
  returned a vector store.
\<close>

theorem answered_query_appends_user_then_assistant:
  assumes "api_key inp \<noteq> []" "get_text_content inp = (Some t, shown)" "t \<noteq> []"
    and "build_vector_store sv t (api_key inp) (st\<lparr>ui := ui st @ shown\<rparr>) = (Some vs, st')"
    and "chat_input inp = Some q" "q \<noteq> []"
    and "chat_model sv (api_key inp) = None"
    and "get_relevant_documents sv vs q = Inr docs"
    and "generate sv (api_key inp) (format_messages docs q) = Inr answer"
  shows "getHistory (main sv inp st)
           = getHistory st @ [\<lparr>role = ''user'', content = q\<rparr>, \<lparr>role = ''assistant'', content = answer\<rparr>]"
proof -
  have m: "main sv inp st = chat_interface sv vs inp st'"
    using assms(1-4) by (rule main_ready)
  have "messages st' = messages st"
    using build_vector_store_messages [OF assms(4)] by simp
  then have h: "getHistory st' = getHistory st"
    by (simp add: getHistory_def)
  have "invoke sv (fst (get_rag_chain sv vs (api_key inp))) q
          = (Inr answer, [format_messages docs q])"
    using invoke_generate [OF assms(7,8)] assms(9) by simp
  from chat_interface_success [OF assms(5,6) this] m h show ?thesis
    by simp
qed

theorem answered_query_appends_user_then_assistant_witness:
  "getHistory (main stub_services (ask [107] (Some [63])) ready_app)
     = getHistory ready_app @ [\<lparr>role = ''user'', content = [63]\<rparr>, \<lparr>role = ''assistant'', content = [111, 107]\<rparr>]"
proof (rule answered_query_appends_user_then_assistant [OF _ get_text_content_ask _ build_ready_ask])
  show "api_key (ask [107] (Some [63])) \<noteq> []" by (simp add: ask_def)
  show "[65::nat] \<noteq> []" by simp
  show "chat_input (ask [107] (Some [63])) = Some [63]" by (simp add: ask_def)
  show "[63::nat] \<noteq> []" by simp
  show "chat_model stub_services (api_key (ask [107] (Some [63]))) = None"
    by (simp add: stub_services_def)
  show "get_relevant_documents stub_services [doc_A] [63] = Inr [doc_A]"
    by (simp add: stub_services_def)
  show "generate stub_services (api_key (ask [107] (Some [63]))) (format_messages [doc_A] [63]) = Inr [111, 107]"
    by (simp add: stub_services_def ask_def)
qed

text \<open>
  C1, as the code has it. Line 146 appends the user turn before the \<open>try\<close> block of
  lines 152 to 158, and the handler only shows the error. So when the language model call
  fails the history has grown by the user turn, no assistant turn is appended, and the
  error message is shown.
\<close>

theorem failed_query_keeps_user_turn_only:
  assumes "api_key inp \<noteq> []" "get_text_content inp = (Some t, shown)" "t \<noteq> []"
    and "build_vector_store sv t (api_key inp) (st\<lparr>ui := ui st @ shown\<rparr>) = (Some vs, st')"
    and "chat_input inp = Some q" "q \<noteq> []"
    and "chat_model sv (api_key inp) = None"
    and "get_relevant_documents sv vs q = Inr docs"
    and "generate sv (api_key inp) (format_messages docs q) = Inl e"
  shows "getHistory (main sv inp st) = getHistory st @ [\<lparr>role = ''user'', content = q\<rparr>]
         \<and> ui (main sv inp st) = ui st' @ [St_error ''An error occurred during generation: '' e]"
proof -
  have m: "main sv inp st = chat_interface sv vs inp st'"
    using assms(1-4) by (rule main_ready)
  have "messages st' = messages st"
    using build_vector_store_messages [OF assms(4)] by simp
  then have h: "getHistory st' = getHistory st"
    by (simp add: getHistory_def)
  have i: "invoke sv (fst (get_rag_chain sv vs (api_key inp))) q
          = (Inl e, [format_messages docs q])"
    using invoke_generate [OF assms(7,8)] assms(9) by simp
  have s: "snd (get_rag_chain sv vs (api_key inp)) = []"
    using assms(7) by (simp add: get_rag_chain_def)
  from chat_interface_failure [OF assms(5,6) i] m h s show ?thesis
    by simp
qed

theorem failed_query_keeps_user_turn_only_witness:
  "getHistory (main stub_services (ask [120] (Some [63])) ready_app)
     = getHistory ready_app @ [\<lparr>role = ''user'', content = [63]\<rparr>]
   \<and> ui (main stub_services (ask [120] (Some [63])) ready_app)
     = ui ready_app @ [St_error ''An error occurred during generation: '' (ServiceError [52, 48, 49])]"
proof (rule failed_query_keeps_user_turn_only [OF _ get_text_content_ask _ build_ready_ask])
  show "api_key (ask [120] (Some [63])) \<noteq> []" by (simp add: ask_def)
  show "[65::nat] \<noteq> []" by simp
  show "chat_input (ask [120] (Some [63])) = Some [63]" by (simp add: ask_def)
  show "[63::nat] \<noteq> []" by simp
  show "chat_model stub_services (api_key (ask [120] (Some [63]))) = None"
    by (simp add: stub_services_def)
  show "get_relevant_documents stub_services [doc_A] [63] = Inr [doc_A]"
    by (simp add: stub_services_def)
  show "generate stub_services (api_key (ask [120] (Some [63]))) (format_messages [doc_A] [63])
          = Inl (ServiceError [52, 48, 49])"
    by (simp add: stub_services_def ask_def)
qed

text \<open>
  C1 as the specification states it fails: with the key \<open>x\<close> the language model call
  fails, and the history after the query is not the history before it.
\<close>

theorem failed_query_changes_history:
  "getHistory (main stub_services (ask [120] (Some [63])) ready_app) \<noteq> getHistory ready_app"
proof -
  have "invoke stub_services (fst (get_rag_chain stub_services [doc_A] (api_key (ask [120] (Some [63]))))) [63]
          = (Inl (ServiceError [52, 48, 49]), [format_messages [doc_A] [63]])"
    by (simp add: invoke_def get_rag_chain_def stub_services_def ask_def)
  from chat_interface_failure(1) [OF _ _ this, of ready_app]
  have "getHistory (chat_interface stub_services [doc_A] (ask [120] (Some [63])) ready_app)
          = getHistory ready_app @ [\<lparr>role = ''user'', content = [63]\<rparr>]"
    by (simp add: ask_def)
  then show ?thesis
    by (simp add: main_ready_ask)
qed

section \<open>The history and the prompt\<close>

text \<open>
  C9. The prompts passed to the language model do not depend on the conversation: two
  states with the same cache of vector stores (hence the same built index) and the same
  record of earlier calls, whatever their histories and messages shown, pass the same
  prompts to the language model for the same inputs. Line 153 gives the chain the query
  only.
\<close>

theorem generator_input_independent_of_history:
  assumes "cache st1 = cache st2" "generator_calls st1 = generator_calls st2"
  shows "generator_calls (main sv inp st1) = generator_calls (main sv inp st2)"
  unfolding main_generator_calls assms by (rule refl)

theorem generator_input_independent_of_history_witness:
  "generator_calls
     (main stub_services (ask [107] (Some [63]))
        (ready_app\<lparr>messages := Some [\<lparr>role = ''user'', content = [104, 105]\<rparr>]\<rparr>))
     = generator_calls (main stub_services (ask [107] (Some [63])) ready_app)
   \<and> generator_calls (main stub_services (ask [107] (Some [63])) ready_app)
     = [format_messages [doc_A] [63]]"
proof
  show "generator_calls
     (main stub_services (ask [107] (Some [63]))
        (ready_app\<lparr>messages := Some [\<lparr>role = ''user'', content = [104, 105]\<rparr>]\<rparr>))
     = generator_calls (main stub_services (ask [107] (Some [63])) ready_app)"
    by (rule generator_input_independent_of_history) simp_all
  show "generator_calls (main stub_services (ask [107] (Some [63])) ready_app)
     = [format_messages [doc_A] [63]]"
    by (simp add: main_ready_ask chat_interface_generator_calls)
       (simp add: ask_def invoke_def get_rag_chain_def stub_services_def ready_app_def)
qed

text \<open>
  C7. A click on the button of line 29 empties the history, and the vector store of the
  current document stays as it is: the run that follows the click finds it in the cache,
  the cache and the record of embedding calls are unchanged, and a later query on the same
  document is answered from the same vector store without a new embedding call. The
  embedding calls are those of \<open>build_vector_store\<close>.
\<close>

theorem clear_history_keeps_vector_store:
  assumes "clear_chat_history inp" "get_text_content inp = (Some t, shown)"
    and "cache st t = Some (Some vs, replay)"
    and "get_text_content inp' = (Some t, shown')"
  shows "getHistory (script sv inp st) = []
         \<and> cache (script sv inp st) = cache st
         \<and> embed_calls (script sv inp st) = embed_calls st
         \<and> fst (build_vector_store sv t key (script sv inp st)) = Some vs
         \<and> embed_calls (main sv inp' (script sv inp st)) = embed_calls st"
proof -
  let ?inp = "inp\<lparr>clear_chat_history := False, chat_input := None\<rparr>"
  have s: "script sv inp st = main sv ?inp (clear_chat st)"
    using assms(1) by (simp add: script_def)
  have "get_text_content ?inp = get_text_content inp"
    by (simp add: get_text_content_def cong: option.case_cong)
  then have g: "get_text_content ?inp = (Some t, shown)"
    using assms(2) by simp
  have c: "cache (clear_chat st) t = Some (Some vs, replay)"
    using assms(3) by (simp add: clear_chat_def)
  have "messages (main sv ?inp (clear_chat st)) = Some []"
    by (rule main_no_query_history) (simp_all add: clear_chat_def)
  then have 1: "getHistory (script sv inp st) = []"
    by (simp add: s getHistory_def)
  have 2: "cache (script sv inp st) = cache st"
    using main_keeps_index(1) [OF g c] by (simp add: s clear_chat_def)
  have 3: "embed_calls (script sv inp st) = embed_calls st"
    using main_keeps_index(2) [OF g c] by (simp add: s clear_chat_def)
  have c': "cache (script sv inp st) t = Some (Some vs, replay)"
    using 2 assms(3) by simp
  have 4: "fst (build_vector_store sv t key (script sv inp st)) = Some vs"
    by (simp add: build_vector_store_hit [OF c'])
  have 5: "embed_calls (main sv inp' (script sv inp st)) = embed_calls st"
    using main_keeps_index(2) [OF assms(4) c'] 3 by simp
  from 1 2 3 4 5 show ?thesis by simp
qed

theorem clear_history_keeps_vector_store_witness:
  "getHistory (script stub_services ((ask [107] None)\<lparr>clear_chat_history := True\<rparr>)
                 (ready_app\<lparr>messages := Some [\<lparr>role = ''user'', content = [104, 105]\<rparr>]\<rparr>)) = []
   \<and> cache (script stub_services ((ask [107] None)\<lparr>clear_chat_history := True\<rparr>)
              (ready_app\<lparr>messages := Some [\<lparr>role = ''user'', content = [104, 105]\<rparr>]\<rparr>))
       = cache (ready_app\<lparr>messages := Some [\<lparr>role = ''user'', content = [104, 105]\<rparr>]\<rparr>)
   \<and> embed_calls (script stub_services ((ask [107] None)\<lparr>clear_chat_history := True\<rparr>)
              (ready_app\<lparr>messages := Some [\<lparr>role = ''user'', content = [104, 105]\<rparr>]\<rparr>))
       = embed_calls (ready_app\<lparr>messages := Some [\<lparr>role = ''user'', content = [104, 105]\<rparr>]\<rparr>)
   \<and> fst (build_vector_store stub_services [65] [107]
             (script stub_services ((ask [107] None)\<lparr>clear_chat_history := True\<rparr>)
                (ready_app\<lparr>messages := Some [\<lparr>role = ''user'', content = [104, 105]\<rparr>]\<rparr>)))
       = Some [doc_A]
   \<and> embed_calls (main stub_services (ask [107] (Some [63]))
             (script stub_services ((ask [107] None)\<lparr>clear_chat_history := True\<rparr>)
                (ready_app\<lparr>messages := Some [\<lparr>role = ''user'', content = [104, 105]\<rparr>]\<rparr>)))
       = embed_calls (ready_app\<lparr>messages := Some [\<lparr>role = ''user'', content = [104, 105]\<rparr>]\<rparr>)"
proof (rule clear_history_keeps_vector_store [where replay = "[]" and shown = "[]" and shown' = "[]"])
  show "clear_chat_history ((ask [107] None)\<lparr>clear_chat_history := True\<rparr>)"
    by simp
  show "get_text_content ((ask [107] None)\<lparr>clear_chat_history := True\<rparr>) = (Some [65], [])"
    by (simp add: get_text_content_def ask_def)
  show "cache (ready_app\<lparr>messages := Some [\<lparr>role = ''user'', content = [104, 105]\<rparr>]\<rparr>) [65]
          = Some (Some [doc_A], [])"
    by (simp add: ready_app_def)
  show "get_text_content (ask [107] (Some [63])) = (Some [65], [])"
    by (rule get_text_content_ask)
qed

section \<open>The cache of vector stores\<close>

text \<open>
  C2, as the code has it. The cache key is the document text alone: the parameter
  \<open>_api_key\<close> of line 54 starts with an underscore, which keeps it out of the key of
  \<open>st.cache_resource\<close>. For a text \<open>t\<close> that is not yet in the cache, building it under a
  key \<open>k1\<close> passes its chunks to the embedding service once; building the same text again,
  under the same or another key \<open>k2\<close>, returns the stored result without a call; building
  another text \<open>t'\<close> runs the body again and passes the chunks of \<open>t'\<close> to the service.
\<close>

theorem build_memoized_on_text_content:
  assumes "cache st t = None" "t \<noteq> []"
    and "split_documents [\<lparr>page_content = t, metadata = [(''source'', ''biography'')]\<rparr>] = Some splits"
    and "cache st t' = None" "t' \<noteq> t" "t' \<noteq> []"
    and "split_documents [\<lparr>page_content = t', metadata = [(''source'', ''biography'')]\<rparr>] = Some splits'"
  shows "embed_calls (snd (build_vector_store sv t k1 st)) = embed_calls st @ [splits]
         \<and> build_vector_store sv t k2 (snd (build_vector_store sv t k1 st))
             = (fst (build_vector_store sv t k1 st),
                (snd (build_vector_store sv t k1 st))
                  \<lparr>ui := ui (snd (build_vector_store sv t k1 st))
                          @ fst (snd (build_vector_store_body sv t k1))\<rparr>)
         \<and> embed_calls (snd (build_vector_store sv t k2 (snd (build_vector_store sv t k1 st))))
             = embed_calls st @ [splits]
         \<and> fst (build_vector_store sv t' k2 (snd (build_vector_store sv t k1 st)))
             = fst (build_vector_store_body sv t' k2)
         \<and> embed_calls (snd (build_vector_store sv t' k2 (snd (build_vector_store sv t k1 st))))
             = embed_calls st @ [splits, splits']"
  using assms
  by (auto simp: build_vector_store_def build_vector_store_body_def split: sum.splits)

theorem build_memoized_on_text_content_witness:
  "embed_calls (snd (build_vector_store stub_services [65] [107] fresh_app)) = embed_calls fresh_app @ [[doc_A]]
   \<and> embed_calls (snd (build_vector_store stub_services [65] [120]
                     (snd (build_vector_store stub_services [65] [107] fresh_app))))
       = embed_calls fresh_app @ [[doc_A]]
   \<and> embed_calls (snd (build_vector_store stub_services [66] [120]
                     (snd (build_vector_store stub_services [65] [107] fresh_app))))
       = embed_calls fresh_app @ [[doc_A], [doc_B]]"
proof -
  have a: "split_documents [\<lparr>page_content = [65], metadata = [(''source'', ''biography'')]\<rparr>] = Some [doc_A]"
    unfolding doc_A_def by (rule split_documents_A)
  have b: "split_documents [\<lparr>page_content = [66], metadata = [(''source'', ''biography'')]\<rparr>] = Some [doc_B]"
    unfolding doc_B_def by (rule split_documents_B)
  have c: "cache fresh_app [65] = None" "cache fresh_app [66] = None"
    by (simp_all add: fresh_app_def)
  from build_memoized_on_text_content [OF c(1) _ a c(2) _ _ b, of stub_services "[107]" "[120]"]
  show ?thesis by simp
qed

text \<open>
  C2 as the specification states it fails: after a build of the text \<open>A\<close> under the key
  \<open>k\<close>, a build of the same text under the key \<open>x\<close> makes no embedding call.
\<close>

theorem changed_api_key_does_not_rebuild:
  "embed_calls (snd (build_vector_store stub_services [65] [120]
                      (snd (build_vector_store stub_services [65] [107] fresh_app))))
     = embed_calls (snd (build_vector_store stub_services [65] [107] fresh_app))"
  unfolding build_fresh snd_conv by (simp add: build_vector_store_def ready_app_def)

section \<open>Documents that cannot be indexed\<close>

text \<open>
  C5. An empty document, uploaded or read from \<open>biography.txt\<close>, is not indexed: the
  text read is the empty string, \<open>main\<close> stops at line 126 with the message of line 127
  and leaves the cache and the record of embedding calls as they were, and the body of
  \<open>build_vector_store\<close> on the empty text returns \<open>None\<close> without splitting or embedding.
\<close>

theorem empty_document_builds_no_index:
  assumes "api_key inp \<noteq> []"
    and "uploaded_file inp = Some [] \<or> (uploaded_file inp = None \<and> biography_txt inp = Some (File []))"
  shows "get_text_content inp = (Some [], [])
         \<and> main sv inp st = st\<lparr>ui := ui st @ [St_info no_document_message]\<rparr>
         \<and> build_vector_store_body sv [] key = (None, [], [])"
proof -
  have g: "get_text_content inp = (Some [], [])"
    using assms(2) by (auto simp: get_text_content_def)
  then have "main sv inp st = st\<lparr>ui := ui st @ [St_info no_document_message]\<rparr>"
    using assms(1) by (simp add: main_def)
  then show ?thesis
    using g by (simp add: build_vector_store_body_def)
qed

theorem empty_document_builds_no_index_witness:
  "main stub_services ((ask [107] None)\<lparr>uploaded_file := Some []\<rparr>) ready_app
     = ready_app\<lparr>ui := ui ready_app @ [St_info no_document_message]\<rparr>
   \<and> build_vector_store_body stub_services [] [107] = (None, [], [])"
  using empty_document_builds_no_index
          [of "(ask [107] None)\<lparr>uploaded_file := Some []\<rparr>" stub_services ready_app "[107]"]
  by (simp add: ask_def)

text \<open>
  C10. Without an upload, \<open>get_text_content\<close> reads \<open>biography.txt\<close> when it exists and
  returns its decoded text. When reading fails (an upload that is not valid UTF-8, or a
  local file that cannot be opened or decoded) it shows one error message and returns
  \<open>None\<close>, and \<open>main\<close> then ends with the same message as when no document is supplied.
\<close>

theorem get_text_content_fallback_and_failures:
  assumes "api_key inp \<noteq> []"
  shows "(uploaded_file inp = None \<and> biography_txt inp = Some (File b) \<and> decode b = Some txt
            \<longrightarrow> get_text_content inp = (Some (universal_newlines txt), []))
         \<and> (read_fails inp
            \<longrightarrow> (\<exists>e. get_text_content inp = (None, [St_error ''Error reading file: '' e])
                    \<and> main sv inp st
                        = st\<lparr>ui := ui st @ [St_error ''Error reading file: '' e,
                                              St_info no_document_message]\<rparr>))"
  using assms
  by (auto simp: get_text_content_def read_fails_def main_def
      split: option.splits local_file.splits)

theorem get_text_content_fallback_and_failures_witness:
  "get_text_content ((ask [107] None)\<lparr>uploaded_file := None, biography_txt := Some (File [0x41, 0x0D, 0x0A, 0x42])\<rparr>)
     = (Some [65, 10, 66], [])
   \<and> read_fails ((ask [107] None)\<lparr>uploaded_file := Some [0xFF]\<rparr>)
   \<and> (\<exists>e. get_text_content ((ask [107] None)\<lparr>uploaded_file := Some [0xFF]\<rparr>)
             = (None, [St_error ''Error reading file: '' e])
          \<and> main stub_services ((ask [107] None)\<lparr>uploaded_file := Some [0xFF]\<rparr>) ready_app
             = ready_app\<lparr>ui := ui ready_app @ [St_error ''Error reading file: '' e,
                                                   St_info no_document_message]\<rparr>)"
proof -
  have d: "decode [0x41, 0x0D, 0x0A, 0x42] = Some [65, 13, 10, 66]"
    by simp
  have f: "read_fails ((ask [107] None)\<lparr>uploaded_file := Some [0xFF]\<rparr>)"
    by (simp add: read_fails_def)
  have k: "api_key ((ask [107] None)\<lparr>uploaded_file := None, biography_txt := Some (File [0x41, 0x0D, 0x0A, 0x42])\<rparr>) \<noteq> []"
    "api_key ((ask [107] None)\<lparr>uploaded_file := Some [0xFF]\<rparr>) \<noteq> []"
    by (simp_all add: ask_def)
  from get_text_content_fallback_and_failures [OF k(1), of "[0x41, 0x0D, 0x0A, 0x42]" "[65, 13, 10, 66]" stub_services ready_app] d
  have 1: "get_text_content ((ask [107] None)\<lparr>uploaded_file := None, biography_txt := Some (File [0x41, 0x0D, 0x0A, 0x42])\<rparr>)
     = (Some [65, 10, 66], [])"
    by simp
  from get_text_content_fallback_and_failures [OF k(2), of "[]" "[]" stub_services ready_app] f
  have 2: "\<exists>e. get_text_content ((ask [107] None)\<lparr>uploaded_file := Some [0xFF]\<rparr>)
             = (None, [St_error ''Error reading file: '' e])
          \<and> main stub_services ((ask [107] None)\<lparr>uploaded_file := Some [0xFF]\<rparr>) ready_app
             = ready_app\<lparr>ui := ui ready_app @ [St_error ''Error reading file: '' e,
                                                   St_info no_document_message]\<rparr>"
    by blast
  from 1 f 2 show ?thesis by blast
qed

section \<open>The prompt\<close>

text \<open>
  C6. For every retrieval result and every query the prompt is a system message followed
  by a human message. The human message is the query text. The system message is the
  instruction of lines 92 to 97 followed by the page contents of the retrieved documents,
  joined in the order of the retrieval result: it contains the grounding rule whatever the
  result, it is the bare instruction when the result is empty, it contains the text of
  every retrieved document, and the text of an earlier document comes before the text of a
  later one.
\<close>

theorem prompt_has_query_rule_and_context_in_order:
  "\<exists>sys. format_messages docs q = [(''system'', sys), (''human'', q)]
     \<and> sys = persona @ grounding_rule @ [10, 10] @ join [10, 10] (map page_content docs)
     \<and> (\<exists>a c. sys = a @ grounding_rule @ c)
     \<and> (docs = [] \<longrightarrow> sys = persona @ grounding_rule @ [10, 10])
     \<and> (\<forall>i<length docs. \<exists>a c. sys = a @ page_content (docs ! i) @ c)
     \<and> (\<forall>i j. i < j \<and> j < length docs
            \<longrightarrow> (\<exists>a b c. sys = a @ page_content (docs ! i) @ b @ page_content (docs ! j) @ c))"
proof -
  let ?ctx = "join [10, 10] (map page_content docs)"
  let ?sys = "persona @ grounding_rule @ [10, 10] @ ?ctx"
  have 1: "format_messages docs q = [(''system'', ?sys), (''human'', q)]"
    by (simp add: format_messages_def format_docs_def)
  have 2: "\<exists>a c. ?sys = a @ grounding_rule @ c"
    by blast
  have 3: "docs = [] \<longrightarrow> ?sys = persona @ grounding_rule @ [10, 10]"
    by simp
  have 4: "\<forall>i<length docs. \<exists>a c. ?sys = a @ page_content (docs ! i) @ c"
  proof (intro allI impI)
    fix i assume i: "i < length docs"
    then have "i < length (map page_content docs)" by simp
    from join_nth [OF this, of "[10, 10]"] i
    obtain a c where "?ctx = a @ page_content (docs ! i) @ c" by auto
    then have "?sys = (persona @ grounding_rule @ [10, 10] @ a) @ page_content (docs ! i) @ c"
      by simp
    then show "\<exists>a c. ?sys = a @ page_content (docs ! i) @ c" by blast
  qed
  have 5: "\<forall>i j. i < j \<and> j < length docs
            \<longrightarrow> (\<exists>a b c. ?sys = a @ page_content (docs ! i) @ b @ page_content (docs ! j) @ c)"
  proof (intro allI impI)
    fix i j assume ij: "i < j \<and> j < length docs"
    then have "i < j" "j < length (map page_content docs)" by simp_all
    from join_nth_nth [OF this, of "[10, 10]"] ij
    obtain a b c where "?ctx = a @ page_content (docs ! i) @ b @ page_content (docs ! j) @ c"
      by auto
    then have "?sys = (persona @ grounding_rule @ [10, 10] @ a) @ page_content (docs ! i) @ b
                        @ page_content (docs ! j) @ c"
      by simp
    then show "\<exists>a b c. ?sys = a @ page_content (docs ! i) @ b @ page_content (docs ! j) @ c"
      by blast
  qed
  from 1 2 3 4 5 show ?thesis by blast
qed

theorem prompt_has_query_rule_and_context_in_order_witness:
  "format_messages [doc_A, doc_B] [63]
     = [(''system'', persona @ grounding_rule @ [10, 10] @ [65, 10, 10, 66]), (''human'', [63])]
   \<and> format_messages [] [63] = [(''system'', persona @ grounding_rule @ [10, 10]), (''human'', [63])]"
proof -
  from prompt_has_query_rule_and_context_in_order [of "[doc_A, doc_B]" "[63]"]
  have 1: "format_messages [doc_A, doc_B] [63]
     = [(''system'', persona @ grounding_rule @ [10, 10] @ [65, 10, 10, 66]), (''human'', [63])]"
    by (auto simp: doc_A_def doc_B_def)
  from prompt_has_query_rule_and_context_in_order [of "[]" "[63]"]
  have 2: "format_messages [] [63] = [(''system'', persona @ grounding_rule @ [10, 10]), (''human'', [63])]"
    by auto
  from 1 2 show ?thesis by simp
qed

end
